theory Spec2Isabelle
  imports Complex_Main "HOL-Library.AList"
begin

section \<open>Python primitives used by the RAG pipeline\<close>

text \<open>
  Strings are lists of characters; one \<^typ>\<open>char\<close> stands for one code point of a Python
  \<^verbatim>\<open>str\<close> (the Latin-1 range).  \<^verbatim>\<open>str.isspace\<close> and the regular expression class
  \<^verbatim>\<open>\s\<close> agree on that range: the code points 9 to 13, 28 to 32, 133 and 160.
\<close>

definition isspace :: "char \<Rightarrow> bool" where
  "isspace c =
     (let n = (of_char c :: nat)
      in (9 \<le> n \<and> n \<le> 13) \<or> (28 \<le> n \<and> n \<le> 32) \<or> n = 133 \<or> n = 160)"

definition strip :: "string \<Rightarrow> string" where
  "strip s = rev (dropWhile isspace (rev (dropWhile isspace s)))"

text \<open>
  Slice bounds: a negative bound counts from the end, and every bound is clamped to
  the range from 0 to the length, so a slice never raises.
\<close>

definition clamp_index :: "nat \<Rightarrow> int \<Rightarrow> nat" where
  "clamp_index n i = (if i < 0 then nat (max 0 (int n + i)) else min n (nat i))"

definition slice :: "'a list \<Rightarrow> int \<Rightarrow> int \<Rightarrow> 'a list" where
  "slice s i j =
     (let a = clamp_index (length s) i; b = clamp_index (length s) j
      in take (b - a) (drop a s))"

definition slice_from :: "'a list \<Rightarrow> int \<Rightarrow> 'a list" where
  "slice_from s i = drop (clamp_index (length s) i) s"

definition slice_to :: "'a list \<Rightarrow> int \<Rightarrow> 'a list" where
  "slice_to s j = take (clamp_index (length s) j) s"

fun join :: "string \<Rightarrow> string list \<Rightarrow> string" where
  "join sep [] = []"
| "join sep [x] = x"
| "join sep (x # y # ys) = x @ sep @ join sep (y # ys)"

section \<open>Document processor (\<^verbatim>\<open>core/rag/document_processor.py\<close>)\<close>

record config =
  chunk_size :: int
  chunk_overlap :: int
  min_chunk_size :: int

subsection \<open>The sentence pattern\<close>

text \<open>
  \<^verbatim>\<open>patterns['sentence'] = re.compile(r'[.!?]+["\']?\s+')\<close>: one or more terminators,
  an optional quote, one or more white-space characters.  The three parts are disjoint
  character classes, so backtracking never finds a match that the greedy scan misses:
  a match at a position exists exactly when the maximal run of terminators, the quote
  if there is one, and the maximal run of white space (at least one) follow each other.
\<close>

definition is_terminator :: "char \<Rightarrow> bool" where
  "is_terminator c = (c = CHR ''.'' \<or> c = CHR ''!'' \<or> c = CHR ''?'')"

definition is_quote :: "char \<Rightarrow> bool" where
  "is_quote c = (c = CHR 0x22 \<or> c = CHR 0x27)"

definition match_here :: "string \<Rightarrow> nat option" where
  "match_here s =
     (let t = takeWhile is_terminator s;
          r1 = dropWhile is_terminator s;
          q = (case r1 of [] \<Rightarrow> 0 | c # _ \<Rightarrow> if is_quote c then 1 else 0);
          w = takeWhile isspace (drop q r1)
      in if t = [] \<or> w = [] then None else Some (length t + q + length w))"

fun search_from :: "nat \<Rightarrow> string \<Rightarrow> nat option" where
  "search_from i [] = None"
| "search_from i (c # cs) =
     (case match_here (c # cs) of
        Some n \<Rightarrow> Some (i + n)
      | None \<Rightarrow> search_from (Suc i) cs)"

text \<open>
  \<^verbatim>\<open>pattern.search(text, pos, endpos)\<close>: the bounds are clamped to the range from 0 to
  the length (a negative bound is 0, it does not count from the end), the text is cut at
  \<^verbatim>\<open>endpos\<close>, and the leftmost match starting at or after \<^verbatim>\<open>pos\<close> is returned.  The
  result here is \<^verbatim>\<open>match.end()\<close>.
\<close>

definition clamp_pos :: "nat \<Rightarrow> int \<Rightarrow> nat" where
  "clamp_pos n i = (if i < 0 then 0 else min n (nat i))"

definition sentence_search :: "string \<Rightarrow> int \<Rightarrow> int \<Rightarrow> nat option" where
  "sentence_search text pos endpos =
     (let p = clamp_pos (length text) pos; e = clamp_pos (length text) endpos
      in if e < p then None else search_from p (drop p (take e text)))"

subsection \<open>Chunking\<close>

text \<open>
  One iteration of the \<^verbatim>\<open>while start < len(text)\<close> loop of \<^verbatim>\<open>_split_into_chunks\<close>:
  either the \<^verbatim>\<open>break\<close> of the last chunk, or the next value of \<^verbatim>\<open>start\<close>, each with
  the chunks collected so far.
\<close>

datatype step = Done "string list" | Continue int "string list"

definition append_chunk :: "config \<Rightarrow> string list \<Rightarrow> string \<Rightarrow> string list" where
  "append_chunk cfg chunks chunk =
     (if min_chunk_size cfg \<le> int (length chunk) then chunks @ [chunk] else chunks)"

definition chunk_step :: "config \<Rightarrow> string \<Rightarrow> int \<Rightarrow> string list \<Rightarrow> step" where
  "chunk_step cfg text start chunks =
     (let end0 = start + chunk_size cfg
      in if int (length text) \<le> end0
         then Done (append_chunk cfg chunks (strip (slice_from text start)))
         else
           let end1 = (case sentence_search text (end0 - 100) (end0 + 100) of
                         Some e \<Rightarrow> int e
                       | None \<Rightarrow> end0)
           in Continue (end1 - chunk_overlap cfg)
                (append_chunk cfg chunks (strip (slice text start end1))))"

text \<open>
  The loop has no bound of its own, so it is a partial function: \<open>None\<close> is the loop
  that never returns.
\<close>

partial_function (option) split_loop ::
  "config \<Rightarrow> string \<Rightarrow> int \<Rightarrow> string list \<Rightarrow> string list option" where
  "split_loop cfg text start chunks =
     (if start < int (length text)
      then (case chunk_step cfg text start chunks of
              Done cs \<Rightarrow> Some cs
            | Continue start' cs \<Rightarrow> split_loop cfg text start' cs)
      else Some chunks)"

declare split_loop.simps [code]

definition split_into_chunks :: "config \<Rightarrow> string \<Rightarrow> string list option" where
  "split_into_chunks cfg text = split_loop cfg text 0 []"

subsection \<open>Merging\<close>





subsection \<open>Text cleaning\<close>

text \<open>
  \<^verbatim>\<open>_clean_text\<close>, step by step: every maximal run of white space becomes one space
  (\<^verbatim>\<open>patterns['whitespace'].sub(' ', text)\<close>), line endings are normalised, lines that
  are empty after stripping are removed, and the result is stripped.
\<close>

function collapse_ws :: "string \<Rightarrow> string" where
  "collapse_ws [] = []"
| "collapse_ws (c # cs) =
     (if isspace c then CHR '' '' # collapse_ws (dropWhile isspace cs)
      else c # collapse_ws cs)"
  by pat_completeness auto
termination
  by (relation "measure length") (auto simp: length_dropWhile_le less_Suc_eq_le)

fun replace_crlf :: "string \<Rightarrow> string" where
  "replace_crlf (a # b # cs) =
     (if a = CHR 0x0D \<and> b = CHR 0x0A then CHR 0x0A # replace_crlf cs
      else a # replace_crlf (b # cs))"
| "replace_crlf cs = cs"

definition replace_cr :: "string \<Rightarrow> string" where
  "replace_cr s = map (\<lambda>c. if c = CHR 0x0D then CHR 0x0A else c) s"

fun split_lines :: "string \<Rightarrow> string list" where
  "split_lines [] = [[]]"
| "split_lines (c # cs) =
     (if c = CHR 0x0A then [] # split_lines cs
      else (case split_lines cs of
              [] \<Rightarrow> [[c]]
            | l # ls \<Rightarrow> (c # l) # ls))"

definition clean_text :: "string \<Rightarrow> string" where
  "clean_text text =
     (let t1 = collapse_ws text;
          t2 = replace_cr (replace_crlf t1);
          t3 = join [CHR 0x0A] (filter (\<lambda>line. strip line \<noteq> []) (split_lines t2))
      in strip t3)"

subsection \<open>Metadata values, clock readings, document identifiers\<close>

text \<open>
  Metadata maps string keys to values; the values modelled are \<^verbatim>\<open>None\<close>, integers and
  strings.  A \<^verbatim>\<open>dict\<close> keeps insertion order and assigning to an existing key keeps its
  position, which is what \<^const>\<open>AList.update\<close> does on an association list.
\<close>

datatype pyval = PNone | PInt int | PStr string

type_synonym metadata = "(string \<times> pyval) list"

definition digit :: "nat \<Rightarrow> char" where
  "digit n = ''0123456789'' ! n"

function show_nat :: "nat \<Rightarrow> string" where
  "show_nat n = (if n < 10 then [digit n] else show_nat (n div 10) @ [digit (n mod 10)])"
  by pat_completeness auto
termination
  by (relation "measure id") auto

definition show_int :: "int \<Rightarrow> string" where
  "show_int i = (if i < 0 then CHR ''-'' # show_nat (nat (- i)) else show_nat (nat i))"

fun py_str :: "pyval \<Rightarrow> string" where
  "py_str PNone = ''None''"
| "py_str (PInt i) = show_int i"
| "py_str (PStr s) = s"

definition dict_update :: "metadata \<Rightarrow> (string \<times> pyval) list \<Rightarrow> metadata" where
  "dict_update d kvs = fold (\<lambda>(k, v) m. AList.update k v m) kvs d"

text \<open>A reading of \<^verbatim>\<open>datetime.now()\<close>; the year has four digits.\<close>

record datetime =
  year :: nat
  month :: nat
  day :: nat
  hour :: nat
  minute :: nat
  second :: nat
  microsecond :: nat

definition zero_pad :: "nat \<Rightarrow> nat \<Rightarrow> string" where
  "zero_pad w n = replicate (w - length (show_nat n)) CHR ''0'' @ show_nat n"

text \<open>\<^verbatim>\<open>strftime('%Y%m%d%H%M%S')\<close> and \<^verbatim>\<open>isoformat()\<close>.\<close>

definition strftime :: "datetime \<Rightarrow> string" where
  "strftime t =
     zero_pad 4 (year t) @ zero_pad 2 (month t) @ zero_pad 2 (day t)
     @ zero_pad 2 (hour t) @ zero_pad 2 (minute t) @ zero_pad 2 (second t)"

definition isoformat :: "datetime \<Rightarrow> string" where
  "isoformat t =
     zero_pad 4 (year t) @ ''-'' @ zero_pad 2 (month t) @ ''-'' @ zero_pad 2 (day t)
     @ ''T'' @ zero_pad 2 (hour t) @ '':'' @ zero_pad 2 (minute t) @ '':''
     @ zero_pad 2 (second t)
     @ (if microsecond t = 0 then [] else ''.'' @ zero_pad 6 (microsecond t))"

text \<open>
  \<^verbatim>\<open>_generate_doc_id\<close>.  The digest function \<^verbatim>\<open>hashlib.md5(s.encode()).hexdigest()\<close> of
  the standard library is the parameter \<open>md5_hexdigest\<close>, and the clock reading is the
  parameter \<open>now\<close>.  \<^verbatim>\<open>if metadata and 'id' in metadata\<close> asks for a mapping that is
  neither \<^verbatim>\<open>None\<close> nor empty and has the key.
\<close>

definition generate_doc_id ::
  "(string \<Rightarrow> string) \<Rightarrow> datetime \<Rightarrow> string \<Rightarrow> metadata option \<Rightarrow> string" where
  "generate_doc_id md5_hexdigest now content metadata =
     (let generated = ''doc_'' @ strftime now @ ''_'' @ slice_to (md5_hexdigest content) 8
      in case metadata of
           None \<Rightarrow> generated
         | Some m \<Rightarrow>
             (if m \<noteq> [] then (case map_of m ''id'' of
                                 Some v \<Rightarrow> py_str v
                               | None \<Rightarrow> generated)
              else generated))"

subsection \<open>Processing a document\<close>

text \<open>
  \<^verbatim>\<open>process_document\<close> updates the mapping it is given, and the returned document
  refers to that same mapping.  The mappings are therefore objects of a store: each
  has an address, \<open>cells\<close> gives the mapping at an address, and \<open>next_addr\<close> is the
  address of the next new object.  A call without metadata allocates a new, empty
  mapping (\<^verbatim>\<open>metadata = {}\<close>).  The two clock readings are those of
  \<^verbatim>\<open>_generate_doc_id\<close> and of the \<^verbatim>\<open>processed_at\<close> entry.  The result is \<open>None\<close>
  when the chunking loop never returns.
\<close>

type_synonym addr = nat

record heap =
  cells :: "addr \<Rightarrow> metadata"
  next_addr :: addr

record document =
  doc_id :: string
  doc_content :: string
  doc_metadata :: addr
  doc_chunks :: "string list"

definition process_document ::
  "config \<Rightarrow> (string \<Rightarrow> string) \<Rightarrow> datetime \<Rightarrow> datetime \<Rightarrow> heap \<Rightarrow> string \<Rightarrow> addr option
     \<Rightarrow> (document \<times> heap) option" where
  "process_document cfg md5_hexdigest now1 now2 h content0 metadata =
     (let content1 = clean_text content0;
          did = generate_doc_id md5_hexdigest now1 content1 (map_option (cells h) metadata);
          a = (case metadata of None \<Rightarrow> next_addr h | Some a \<Rightarrow> a);
          h1 = (case metadata of
                  None \<Rightarrow> h\<lparr>cells := (cells h)(next_addr h := []),
                             next_addr := Suc (next_addr h)\<rparr>
                | Some _ \<Rightarrow> h);
          h2 = h1\<lparr>cells := (cells h1)(a := dict_update (cells h1 a)
                 [(''processed_at'', PStr (isoformat now2)),
                  (''chunk_size'', PInt (chunk_size cfg)),
                  (''chunk_overlap'', PInt (chunk_overlap cfg)),
                  (''total_chunks'', PInt 0)])\<rparr>
      in case split_into_chunks cfg content1 of
           None \<Rightarrow> None
         | Some cs \<Rightarrow>
             Some (\<lparr>doc_id = did, doc_content = content1, doc_metadata = a, doc_chunks = cs\<rparr>,
                   h2\<lparr>cells := (cells h2)
                         (a := AList.update ''total_chunks'' (PInt (int (length cs)))
                                 (cells h2 a))\<rparr>))"

section \<open>Vector store (\<^verbatim>\<open>core/memory/vector_store.py\<close>)\<close>

text \<open>Exceptions are values; a failing call returns \<open>Inl\<close> of the exception.\<close>

datatype error =
  ValueError | AssertionError | KeyError | TypeError | IndexError | RuntimeError
  | UnpicklingError

text \<open>
  The flat index of the vector library holds its dimension and the vectors in insertion
  order; \<^verbatim>\<open>ntotal\<close> is their number.  The component type \<open>'a\<close> stands for
  \<^verbatim>\<open>float32\<close>.
\<close>

record 'a flat_index =
  index_d :: int
  index_xb :: "'a list list"

definition ntotal :: "'a flat_index \<Rightarrow> int" where
  "ntotal idx = int (length (index_xb idx))"

record 'a vector_store =
  dimension :: int
  index_type :: string
  index :: "'a flat_index"
  metadata :: "metadata list"

definition init_index :: "'a vector_store \<Rightarrow> error + 'a vector_store" where
  "init_index s =
     (if index_type s = ''L2'' \<or> index_type s = ''IP''
      then Inr (s\<lparr>index := \<lparr>index_d = dimension s, index_xb = []\<rparr>\<rparr>)
      else Inl ValueError)"

text \<open>
  \<^verbatim>\<open>np.array(vectors).astype('float32')\<close> on a list of lists: rows of one length give
  a matrix, rows of different lengths raise \<^verbatim>\<open>ValueError\<close>, and the empty list gives an
  array with the one-dimensional shape \<^verbatim>\<open>(0,)\<close>.
\<close>

definition np_array :: "'a list list \<Rightarrow> error + 'a list list" where
  "np_array vectors =
     (case vectors of
        [] \<Rightarrow> Inr []
      | v # vs \<Rightarrow>
          if list_all (\<lambda>w. length w = length v) vs then Inr vectors else Inl ValueError)"

text \<open>
  \<^verbatim>\<open>index.add(x)\<close> of the library's Python interface starts with
  \<^verbatim>\<open>n, d = x.shape\<close> and \<^verbatim>\<open>assert d == self.d\<close>: the shape \<^verbatim>\<open>(0,)\<close> cannot be
  unpacked (\<^verbatim>\<open>ValueError\<close>), and a matrix of another width fails the assertion.
\<close>

definition index_add :: "'a flat_index \<Rightarrow> 'a list list \<Rightarrow> error + 'a flat_index" where
  "index_add idx x =
     (case x of
        [] \<Rightarrow> Inl ValueError
      | v # _ \<Rightarrow>
          if int (length v) = index_d idx
          then Inr (idx\<lparr>index_xb := index_xb idx @ x\<rparr>)
          else Inl AssertionError)"

text \<open>
  The loop \<^verbatim>\<open>for i, meta in enumerate(metadata)\<close> of \<^verbatim>\<open>add_vectors\<close>;
  \<^verbatim>\<open>vector_ids[i]\<close> raises \<^verbatim>\<open>IndexError\<close> when there are more mappings than vectors.
\<close>

fun add_metadata ::
  "string \<Rightarrow> int list \<Rightarrow> metadata list \<Rightarrow> metadata list \<Rightarrow> error + metadata list" where
  "add_metadata now ids [] acc = Inr acc"
| "add_metadata now [] (meta # rest) acc = Inl IndexError"
| "add_metadata now (i # ids) (meta # rest) acc =
     add_metadata now ids rest
       (acc @ [AList.update ''added_at'' (PStr now) (AList.update ''vector_id'' (PInt i) meta)])"

definition add_vectors ::
  "datetime \<Rightarrow> 'a vector_store \<Rightarrow> 'a list list \<Rightarrow> metadata list option
     \<Rightarrow> error + (int list \<times> 'a vector_store)" where
  "add_vectors now s vectors md =
     (case np_array vectors of
        Inl e \<Rightarrow> Inl e
      | Inr x \<Rightarrow>
          (case index_add (index s) x of
             Inl e \<Rightarrow> Inl e
           | Inr idx \<Rightarrow>
               (let start_id = ntotal (index s);
                    vector_ids = [start_id .. start_id + int (length x) - 1];
                    appended =
                      (case md of
                         None \<Rightarrow> []
                       | Some ms \<Rightarrow> ms)
                in case (if appended \<noteq> []
                         then add_metadata (isoformat now) vector_ids appended (metadata s)
                         else Inr (metadata s
                                   @ map (\<lambda>i. [(''vector_id'', PInt i),
                                               (''added_at'', PStr (isoformat now))])
                                       vector_ids)) of
                     Inl e \<Rightarrow> Inl e
                   | Inr ms \<Rightarrow> Inr (vector_ids, s\<lparr>index := idx, metadata := ms\<rparr>))))"

text \<open>
  \<^verbatim>\<open>index.reconstruct(key)\<close> returns the stored vector for a key from 0 to
  \<^verbatim>\<open>ntotal - 1\<close>.  What the library does with any other key (it raises, or it
  returns what it reads at the key's place) is the parameter \<open>out_of_range\<close>.
\<close>

definition reconstruct ::
  "(int \<Rightarrow> error + 'a list) \<Rightarrow> 'a flat_index \<Rightarrow> int \<Rightarrow> error + 'a list" where
  "reconstruct out_of_range idx key =
     (if 0 \<le> key \<and> key < ntotal idx then Inr (index_xb idx ! nat key)
      else out_of_range key)"

text \<open>
  \<^verbatim>\<open>faiss.vector_to_array\<close> converts one of the library's own vector objects.  It
  starts with an assertion on the class of its argument, and the argument in
  \<^verbatim>\<open>get_vector\<close> is the numpy array that \<^verbatim>\<open>index.reconstruct\<close> returns: the
  assertion fails.
\<close>

definition vector_to_array :: "'a list \<Rightarrow> error + 'a list" where
  "vector_to_array x = Inl AssertionError"

definition get_vector ::
  "(int \<Rightarrow> error + 'a list) \<Rightarrow> 'a vector_store \<Rightarrow> int \<Rightarrow> error + 'a list option" where
  "get_vector out_of_range s vector_id =
     (if ntotal (index s) \<le> vector_id then Inr None
      else (case reconstruct out_of_range (index s) vector_id of
              Inl e \<Rightarrow> Inl e
            | Inr x \<Rightarrow>
                (case vector_to_array x of
                   Inl e \<Rightarrow> Inl e
                 | Inr v \<Rightarrow> Inr (Some v))))"

text \<open>
  \<^verbatim>\<open>_rebuild_index\<close>: \<^verbatim>\<open>_init_index()\<close> first, then the loop over the metadata.  Each
  \<^verbatim>\<open>get_vector\<close> of the loop reads \<^verbatim>\<open>self.index\<close>, which is the index being built.
  \<^verbatim>\<open>if vector:\<close> skips \<^verbatim>\<open>None\<close> and the empty list.
\<close>

fun rebuild_loop ::
  "(int \<Rightarrow> error + 'a list) \<Rightarrow> 'a vector_store \<Rightarrow> metadata list \<Rightarrow> error + 'a vector_store" where
  "rebuild_loop out_of_range s [] = Inr s"
| "rebuild_loop out_of_range s (meta # rest) =
     (case map_of meta ''vector_id'' of
        None \<Rightarrow> Inl KeyError
      | Some (PInt vector_id) \<Rightarrow>
          (case get_vector out_of_range s vector_id of
             Inl e \<Rightarrow> Inl e
           | Inr None \<Rightarrow> rebuild_loop out_of_range s rest
           | Inr (Some vector) \<Rightarrow>
               if vector = [] then rebuild_loop out_of_range s rest
               else (case index_add (index s) [vector] of
                       Inl e \<Rightarrow> Inl e
                     | Inr idx \<Rightarrow> rebuild_loop out_of_range (s\<lparr>index := idx\<rparr>) rest))
      | Some _ \<Rightarrow> Inl TypeError)"

definition rebuild_index ::
  "(int \<Rightarrow> error + 'a list) \<Rightarrow> 'a vector_store \<Rightarrow> error + 'a vector_store" where
  "rebuild_index out_of_range s =
     (case init_index s of
        Inl e \<Rightarrow> Inl e
      | Inr s0 \<Rightarrow> rebuild_loop out_of_range s0 (metadata s0))"

text \<open>
  The comprehension of \<^verbatim>\<open>delete_vector\<close> keeps the mappings whose \<^verbatim>\<open>vector_id\<close>
  differs from the argument; a mapping without the key raises \<^verbatim>\<open>KeyError\<close>.
\<close>

fun remove_metadata :: "int \<Rightarrow> metadata list \<Rightarrow> error + metadata list" where
  "remove_metadata vector_id [] = Inr []"
| "remove_metadata vector_id (meta # rest) =
     (case map_of meta ''vector_id'' of
        None \<Rightarrow> Inl KeyError
      | Some v \<Rightarrow>
          (case remove_metadata vector_id rest of
             Inl e \<Rightarrow> Inl e
           | Inr ms \<Rightarrow> Inr (if v \<noteq> PInt vector_id then meta # ms else ms)))"

definition delete_vector ::
  "(int \<Rightarrow> error + 'a list) \<Rightarrow> 'a vector_store \<Rightarrow> int \<Rightarrow> error + 'a vector_store" where
  "delete_vector out_of_range s vector_id =
     (case remove_metadata vector_id (metadata s) of
        Inl e \<Rightarrow> Inl e
      | Inr ms \<Rightarrow> rebuild_index out_of_range (s\<lparr>metadata := ms\<rparr>))"

subsection \<open>Persistence\<close>

text \<open>
  The store path holds two files, \<^verbatim>\<open>index.faiss\<close> and \<^verbatim>\<open>metadata.pkl\<close>.  A file is
  missing, or reading it back raises, or it holds a value.  \<^verbatim>\<open>load\<close> reads each file
  that exists and assigns what it read; nothing else happens in it.
\<close>

datatype 'a stored_file = Missing | Unreadable error | Stored 'a

record 'a snapshot =
  index_file :: "'a flat_index stored_file"
  metadata_file :: "metadata list stored_file"

definition save :: "'a vector_store \<Rightarrow> 'a snapshot" where
  "save s = \<lparr>index_file = Stored (index s), metadata_file = Stored (metadata s)\<rparr>"

definition load :: "'a vector_store \<Rightarrow> 'a snapshot \<Rightarrow> error + 'a vector_store" where
  "load s snap =
     (case index_file snap of
        Unreadable e \<Rightarrow> Inl e
      | other \<Rightarrow>
          (let s1 = (case other of Stored idx \<Rightarrow> s\<lparr>index := idx\<rparr> | _ \<Rightarrow> s)
           in case metadata_file snap of
                Unreadable e \<Rightarrow> Inl e
              | Missing \<Rightarrow> Inr s1
              | Stored ms \<Rightarrow> Inr (s1\<lparr>metadata := ms\<rparr>)))"

section \<open>Retriever (\<^verbatim>\<open>core/rag/retriever.py\<close>)\<close>

text \<open>
  A search result is a mapping with the entries \<^verbatim>\<open>document\<close>, \<^verbatim>\<open>similarity\<close> and
  \<^verbatim>\<open>metadata\<close>; the first two may be absent.  The embedding generator and the vector
  store of a retriever are collaborators given at construction, so their methods are
  parameters: \<open>generate_embedding\<close>, \<open>generate_embeddings\<close> and \<open>store_search\<close>
  (called with the query embedding, \<^verbatim>\<open>n_results\<close> and \<^verbatim>\<open>where\<close>).
\<close>

record retrieval_result =
  res_document :: "string option"
  res_similarity :: "real option"
  res_metadata :: metadata

record retriever =
  max_documents :: int
  similarity_threshold :: real

text \<open>\<^verbatim>\<open>max_documents or self.max_documents\<close>: \<^verbatim>\<open>None\<close> and 0 are falsy.\<close>

definition or_default :: "int option \<Rightarrow> int \<Rightarrow> int" where
  "or_default n dflt = (case n of None \<Rightarrow> dflt | Some k \<Rightarrow> if k = 0 then dflt else k)"

text \<open>\<^verbatim>\<open>result.get('similarity', 0)\<close>.\<close>

definition get_similarity :: "retrieval_result \<Rightarrow> real" where
  "get_similarity r = (case res_similarity r of None \<Rightarrow> 0 | Some x \<Rightarrow> x)"

definition retrieve ::
  "(string \<Rightarrow> error + 'e) \<Rightarrow> ('e \<Rightarrow> int \<Rightarrow> 'f option \<Rightarrow> error + retrieval_result list)
     \<Rightarrow> retriever \<Rightarrow> string \<Rightarrow> 'f option \<Rightarrow> int option \<Rightarrow> error + retrieval_result list" where
  "retrieve generate_embedding store_search r query filters max_docs =
     (case generate_embedding query of
        Inl e \<Rightarrow> Inl e
      | Inr query_embedding \<Rightarrow>
          (case store_search query_embedding (or_default max_docs (max_documents r)) filters of
             Inl e \<Rightarrow> Inl e
           | Inr results \<Rightarrow>
               Inr (filter (\<lambda>res. similarity_threshold r \<le> get_similarity res) results)))"




section \<open>Example inputs\<close>

text \<open>The configuration of the chunking example, and a clock reading.\<close>

definition example_config :: config where
  "example_config = \<lparr>chunk_size = 4, chunk_overlap = 1, min_chunk_size = 1\<rparr>"

definition example_time :: datetime where
  "example_time =
     \<lparr>year = 2024, month = 1, day = 2, hour = 3, minute = 4, second = 5, microsecond = 0\<rparr>"

text \<open>
  A store of dimension 2 as the constructor leaves it, and the store after
  \<^verbatim>\<open>add_vectors([[1, 0], [0, 1]])\<close>.
\<close>

definition empty_store :: "int vector_store" where
  "empty_store =
     \<lparr>dimension = 2, index_type = ''L2'',
      index = \<lparr>index_d = 2, index_xb = []\<rparr>, metadata = []\<rparr>"

definition two_vectors :: "int vector_store" where
  "two_vectors =
     \<lparr>dimension = 2, index_type = ''L2'',
      index = \<lparr>index_d = 2, index_xb = [[1, 0], [0, 1]]\<rparr>,
      metadata = [[(''vector_id'', PInt 0), (''added_at'', PStr ''2024-01-02T03:04:05'')],
                  [(''vector_id'', PInt 1), (''added_at'', PStr ''2024-01-02T03:04:05'')]]\<rparr>"

text \<open>A library that raises on a key outside the index.\<close>

definition library_raises :: "int \<Rightarrow> error + int list" where
  "library_raises key = Inl RuntimeError"

text \<open>
  The metadata that \<^verbatim>\<open>add_vectors\<close> writes carries a \<^verbatim>\<open>vector_id\<close> that is an
  integer from 0 upwards.
\<close>

definition nonneg_id :: "metadata \<Rightarrow> bool" where
  "nonneg_id meta =
     (case map_of meta ''vector_id'' of
        Some (PInt i) \<Rightarrow> 0 \<le> i
      | _ \<Rightarrow> False)"

text \<open>A configuration whose minimum chunk size is above one.\<close>

definition short_config :: config where
  "short_config = \<lparr>chunk_size = 10, chunk_overlap = 1, min_chunk_size = 3\<rparr>"

text \<open>
  A library that does not check the key and returns what it reads at its place, here
  two zeros.
\<close>

definition library_reads :: "int \<Rightarrow> error + int list" where
  "library_reads key = Inr [0, 0]"

text \<open>
  A store of dimension 3 as the constructor leaves it, and the store of dimension 2
  after \<^verbatim>\<open>load\<close> has read the files that the store of dimension 3 saved.
\<close>

definition three_dim_store :: "int vector_store" where
  "three_dim_store =
     \<lparr>dimension = 3, index_type = ''L2'',
      index = \<lparr>index_d = 3, index_xb = []\<rparr>, metadata = []\<rparr>"

definition loaded_store :: "int vector_store" where
  "loaded_store =
     \<lparr>dimension = 2, index_type = ''L2'',
      index = \<lparr>index_d = 3, index_xb = []\<rparr>, metadata = []\<rparr>"


text \<open>
  Digests for the examples: the MD5 digest of \<^verbatim>\<open>hello world\<close>, and for every other
  text the MD5 digest of the empty text.
\<close>

definition sample_md5 :: "string \<Rightarrow> string" where
  "sample_md5 s =
     (if s = ''hello world'' then ''5eb63bbbe01eeed093cb22bb8f5acdc3''
      else ''d41d8cd98f00b204e9800998ecf8427e'')"

text \<open>Clock readings one second after \<^const>\<open>example_time\<close>, and within its second.\<close>

definition later_time :: datetime where
  "later_time =
     \<lparr>year = 2024, month = 1, day = 2, hour = 3, minute = 4, second = 6, microsecond = 0\<rparr>"

definition same_second :: datetime where
  "same_second =
     \<lparr>year = 2024, month = 1, day = 2, hour = 3, minute = 4, second = 5,
      microsecond = 250\<rparr>"

text \<open>An object store with one mapping, at address 0.\<close>

definition one_mapping :: heap where
  "one_mapping =
     \<lparr>cells = (\<lambda>a. if a = 0 then [(''source'', PStr ''notes.txt'')] else []),
      next_addr = 1\<rparr>"


text \<open>
  Collaborators of a retriever: an embedding generator whose query embedding is the
  length of the query, a vector store that holds six results in the order of their
  similarity and returns the first \<^verbatim>\<open>n_results\<close> of them, and a scoring call that
  fails.
\<close>

definition hit :: "string \<Rightarrow> real \<Rightarrow> retrieval_result" where
  "hit text sim = \<lparr>res_document = Some text, res_similarity = Some sim, res_metadata = []\<rparr>"

definition stored_hits :: "retrieval_result list" where
  "stored_hits =
     [hit ''a'' 0.95, hit ''b'' 0.9, hit ''c'' 0.85, hit ''d'' 0.8, hit ''e'' 0.75,
      hit ''f'' 0.6]"

definition length_embedding :: "string \<Rightarrow> error + nat" where
  "length_embedding query = Inr (length query)"

definition first_hits :: "nat \<Rightarrow> int \<Rightarrow> unit option \<Rightarrow> error + retrieval_result list" where
  "first_hits query_embedding n_results filters = Inr (slice_to stored_hits n_results)"


definition five_at_most :: retriever where
  "five_at_most = \<lparr>max_documents = 5, similarity_threshold = 0.7\<rparr>"

section \<open>Properties of the vector store\<close>

lemma two_vectors_built:
  "add_vectors example_time empty_store [[1, 0], [0, 1]] None = Inr ([0, 1], two_vectors)"
  by code_simp

lemma np_array_uniform:
  assumes "np_array vectors = Inr x"
  shows "x = vectors \<and> (\<forall>v \<in> set vectors. \<forall>w \<in> set vectors. length v = length w)"
  using assms by (auto simp: np_array_def list_all_iff split: list.splits if_splits)

lemma rebuild_loop_empty:
  assumes "index_xb (index s) = []" and "list_all nonneg_id ms"
  shows "rebuild_loop out_of_range s ms = Inr s"
  using assms
proof (induction ms)
  case Nil
  then show ?case by simp
next
  case (Cons meta ms)
  from Cons.prems(2) obtain i where i: "map_of meta ''vector_id'' = Some (PInt i)" "0 \<le> i"
    by (auto simp: nonneg_id_def split: option.splits pyval.splits)
  with Cons.prems(1) have "get_vector out_of_range s i = Inr None"
    by (simp add: get_vector_def ntotal_def)
  with i Cons show ?case by simp
qed

lemma remove_metadata_filter:
  assumes "list_all nonneg_id ms"
  shows "remove_metadata vid ms
           = Inr (filter (\<lambda>meta. map_of meta ''vector_id'' \<noteq> Some (PInt vid)) ms)"
  using assms
  by (induction ms) (auto simp: nonneg_id_def split: option.splits pyval.splits)

text \<open>
  C1.  Deleting a vector is meant to remove one record and keep the others: the count
  drops by one and the surviving vectors are fetched by their old ids and inserted again
  in order.  The code empties the index before it fetches: \<^verbatim>\<open>_rebuild_index\<close> calls
  \<^verbatim>\<open>_init_index\<close> first, so every \<^verbatim>\<open>get_vector\<close> of its loop finds
  \<^verbatim>\<open>vector_id >= ntotal\<close> on the new index and returns \<^verbatim>\<open>None\<close>.  For every store with
  a supported index type whose metadata carry integer ids from 0 upwards, and for every
  id, \<^verbatim>\<open>delete_vector\<close> returns with an empty index, whatever the store held before; only
  the metadata lose exactly the entries of that id.
\<close>

theorem delete_vector_empties_index:
  assumes "index_type s = ''L2'' \<or> index_type s = ''IP''"
      and "list_all nonneg_id (metadata s)"
  shows "delete_vector out_of_range s vid =
           Inr (s\<lparr>index := \<lparr>index_d = dimension s, index_xb = []\<rparr>,
                  metadata := filter (\<lambda>meta. map_of meta ''vector_id'' \<noteq> Some (PInt vid))
                                (metadata s)\<rparr>)"
proof -
  let ?ms = "filter (\<lambda>meta. map_of meta ''vector_id'' \<noteq> Some (PInt vid)) (metadata s)"
  let ?s0 = "s\<lparr>metadata := ?ms, index := \<lparr>index_d = dimension s, index_xb = []\<rparr>\<rparr>"
  have keep: "list_all nonneg_id ?ms"
    using assms(2) by (simp add: list_all_iff)
  have "rebuild_loop out_of_range ?s0 ?ms = Inr ?s0"
    by (rule rebuild_loop_empty) (simp_all add: keep)
  with assms(1) have "rebuild_index out_of_range (s\<lparr>metadata := ?ms\<rparr>) = Inr ?s0"
    by (simp add: rebuild_index_def init_index_def)
  then show ?thesis
    by (simp add: delete_vector_def remove_metadata_filter [OF assms(2)])
qed

text \<open>
  The store with the two vectors of ids 0 and 1: after \<^verbatim>\<open>delete_vector(0)\<close> the count is
  0, not 1, and the vector of id 1 is gone from the index while its metadata remain.
\<close>

theorem delete_vector_empties_index_witness:
  "(index_type two_vectors = ''L2'' \<or> index_type two_vectors = ''IP'')
   \<and> list_all nonneg_id (metadata two_vectors)
   \<and> ntotal (index two_vectors) = 2
   \<and> delete_vector library_raises two_vectors 0 =
       Inr \<lparr>dimension = 2, index_type = ''L2'',
            index = \<lparr>index_d = 2, index_xb = []\<rparr>,
            metadata = [[(''vector_id'', PInt 1),
                         (''added_at'', PStr ''2024-01-02T03:04:05'')]]\<rparr>"
proof -
  have ty: "index_type two_vectors = ''L2'' \<or> index_type two_vectors = ''IP''"
    by (simp add: two_vectors_def)
  have ids: "list_all nonneg_id (metadata two_vectors)"
    by (simp add: two_vectors_def nonneg_id_def)
  show ?thesis
    using ty ids delete_vector_empties_index [OF ty ids, of library_raises 0]
    by (simp add: two_vectors_def ntotal_def)
qed

text \<open>
  The index of a store has the configured dimension after the constructor, after
  \<^verbatim>\<open>add_vectors\<close> and after \<^verbatim>\<open>delete_vector\<close>.
\<close>

lemma init_index_dimension:
  assumes "init_index s = Inr s'"
  shows "index_d (index s') = dimension s' \<and> dimension s' = dimension s"
  using assms by (auto simp: init_index_def split: if_splits)

lemma index_add_dimension:
  assumes "index_add idx x = Inr idx'"
  shows "index_d idx' = index_d idx"
  using assms by (auto simp: index_add_def split: list.splits if_splits)

lemma add_vectors_keeps_dimension:
  assumes "add_vectors now s vectors md = Inr (ids, s')"
  shows "index_d (index s') = index_d (index s) \<and> dimension s' = dimension s"
  using assms
  by (auto simp: add_vectors_def Let_def split: sum.splits dest: index_add_dimension)

lemma rebuild_loop_dimension:
  assumes "rebuild_loop out_of_range s ms = Inr s'"
  shows "index_d (index s') = index_d (index s) \<and> dimension s' = dimension s"
  using assms
proof (induction ms arbitrary: s)
  case Nil
  then show ?case by simp
next
  case (Cons meta ms)
  show ?case
  proof (cases "get_vector out_of_range s (case map_of meta ''vector_id'' of
                                              Some (PInt i) \<Rightarrow> i | _ \<Rightarrow> 0)")
    case (Inl e)
    with Cons.prems show ?thesis
      by (auto split: option.splits pyval.splits)
  next
    case (Inr r)
    with Cons.prems Cons.IH show ?thesis
      by (auto split: option.splits pyval.splits sum.splits if_splits
               dest!: index_add_dimension)
  qed
qed

lemma delete_vector_dimension:
  assumes "delete_vector out_of_range s vid = Inr s'"
  shows "index_d (index s') = dimension s' \<and> dimension s' = dimension s"
proof -
  from assms obtain ms s0 where
    init: "init_index (s\<lparr>metadata := ms\<rparr>) = Inr s0" and
    loop: "rebuild_loop out_of_range s0 (metadata s0) = Inr s'"
    by (auto simp: delete_vector_def rebuild_index_def split: sum.splits)
  from init_index_dimension [OF init] rebuild_loop_dimension [OF loop]
  show ?thesis by simp
qed

text \<open>
  \<^verbatim>\<open>add_vectors\<close> never compares a length with \<^verbatim>\<open>self.dimension\<close>.  Rows of different
  lengths fail in the array conversion, and rows of one length are compared with the
  dimension of the index by \<^verbatim>\<open>index.add\<close>.
\<close>

lemma add_vectors_rejects:
  assumes bad: "\<exists>v \<in> set vectors. int (length v) \<noteq> index_d (index s)"
  shows "add_vectors now s vectors md = Inl ValueError
         \<or> add_vectors now s vectors md = Inl AssertionError"
proof (cases "np_array vectors")
  case (Inl e)
  then have "e = ValueError"
    by (auto simp: np_array_def split: list.splits if_splits)
  with Inl show ?thesis by (simp add: add_vectors_def)
next
  case (Inr x)
  note x = np_array_uniform [OF Inr, THEN conjunct1]
  note uni = np_array_uniform [OF Inr, THEN conjunct2]
  from bad obtain v where v: "v \<in> set vectors" "int (length v) \<noteq> index_d (index s)" by auto
  then obtain w ws where vs: "vectors = w # ws" by (cases vectors) auto
  with uni v have "length w = length v" by auto
  with v have "int (length w) \<noteq> index_d (index s)" by simp
  with vs have "index_add (index s) vectors = Inl AssertionError"
    by (simp add: index_add_def)
  with Inr x show ?thesis by (simp add: add_vectors_def)
qed

lemma add_vectors_rejects_configured:
  assumes "index_d (index s) = dimension s"
      and "\<exists>v \<in> set vectors. int (length v) \<noteq> dimension s"
  shows "add_vectors now s vectors md = Inl ValueError
         \<or> add_vectors now s vectors md = Inl AssertionError"
  using assms add_vectors_rejects [of vectors s now md] by simp

text \<open>
  C7.  \<^verbatim>\<open>add_vectors\<close> is meant to fail whenever some input vector has a length
  other than the configured dimension.  The length is compared with the dimension of
  the index, not with the configured one, and \<^verbatim>\<open>load\<close> replaces the index without
  looking at its dimension.  A store configured with dimension 2 that has loaded the
  files of a store of dimension 3 accepts the vector \<^verbatim>\<open>[7, 8, 9]\<close> and returns the id
  0.
\<close>

theorem add_vectors_configured_dimension_counterexample:
  "load empty_store (save three_dim_store) = Inr loaded_store
   \<and> dimension loaded_store = 2
   \<and> int (length [7, 8, 9 :: int]) \<noteq> dimension loaded_store
   \<and> add_vectors example_time loaded_store [[7, 8, 9]] None =
       Inr ([0],
            \<lparr>dimension = 2, index_type = ''L2'',
             index = \<lparr>index_d = 3, index_xb = [[7, 8, 9]]\<rparr>,
             metadata = [[(''vector_id'', PInt 0),
                          (''added_at'', PStr ''2024-01-02T03:04:05'')]]\<rparr>)"
proof -
  have l: "load empty_store (save three_dim_store) = Inr loaded_store"
    by (simp add: load_def save_def empty_store_def three_dim_store_def loaded_store_def)
  have d: "dimension loaded_store = 2"
    by (simp add: loaded_store_def)
  have n: "int (length [7, 8, 9 :: int]) \<noteq> dimension loaded_store"
    by (simp add: loaded_store_def)
  have a: "add_vectors example_time loaded_store [[7, 8, 9]] None =
       Inr ([0],
            \<lparr>dimension = 2, index_type = ''L2'',
             index = \<lparr>index_d = 3, index_xb = [[7, 8, 9]]\<rparr>,
             metadata = [[(''vector_id'', PInt 0),
                          (''added_at'', PStr ''2024-01-02T03:04:05'')]]\<rparr>)"
    by code_simp
  from l d n a show ?thesis by (intro conjI)
qed

text \<open>
  C7, as it holds: whenever some input vector has a length other than the dimension of the
  store's index, \<^verbatim>\<open>add_vectors\<close> fails with the \<^verbatim>\<open>ValueError\<close> of the array
  conversion or the \<^verbatim>\<open>AssertionError\<close> of \<^verbatim>\<open>index.add\<close>, and returns no ids.  The
  dimension of the index is the configured one unless \<^verbatim>\<open>load\<close> has replaced the index
  (the lemmas above).
\<close>

theorem add_vectors_dimension_mismatch:
  assumes "\<exists>v \<in> set vectors. int (length v) \<noteq> index_d (index s)"
  shows "add_vectors now s vectors md = Inl ValueError
         \<or> add_vectors now s vectors md = Inl AssertionError"
  using assms by (rule add_vectors_rejects)

theorem add_vectors_dimension_mismatch_witness:
  "(\<exists>v \<in> set [[1, 0], [0, 1, 3 :: int]]. int (length v) \<noteq> index_d (index empty_store))
   \<and> (add_vectors example_time empty_store [[1, 0], [0, 1, 3]] None = Inl ValueError
        \<or> add_vectors example_time empty_store [[1, 0], [0, 1, 3]] None = Inl AssertionError)"
proof -
  have bad: "\<exists>v \<in> set [[1, 0], [0, 1, 3 :: int]]. int (length v) \<noteq> index_d (index empty_store)"
    by (simp add: empty_store_def)
  from add_vectors_dimension_mismatch [OF bad, of example_time None]
  have "add_vectors example_time empty_store [[1, 0], [0, 1, 3]] None = Inl ValueError
        \<or> add_vectors example_time empty_store [[1, 0], [0, 1, 3]] None = Inl AssertionError" .
  with bad show ?thesis by (rule conjI)
qed

text \<open>
  C8.  \<^verbatim>\<open>get_vector\<close> is documented to return the vector if found and \<^verbatim>\<open>None\<close>
  otherwise.  Its only guard is \<^verbatim>\<open>vector_id >= ntotal\<close>, so an id at or beyond the count
  gives \<^verbatim>\<open>None\<close>, but a negative id passes the guard and reaches
  \<^verbatim>\<open>index.reconstruct\<close>: the call then raises, in the library or in the conversion of
  what the library returned, and never returns \<^verbatim>\<open>None\<close>.
\<close>

theorem get_vector_negative_id_not_none:
  "get_vector out_of_range s (- 1) \<noteq> Inr None
   \<and> get_vector library_raises two_vectors (- 1) = Inl RuntimeError
   \<and> get_vector library_reads two_vectors (- 1) = Inl AssertionError"
  by (simp add: get_vector_def reconstruct_def ntotal_def library_raises_def
        library_reads_def vector_to_array_def split: sum.splits)

lemma get_vector_beyond_count:
  assumes "ntotal (index s) \<le> vector_id"
  shows "get_vector out_of_range s vector_id = Inr None"
  using assms by (simp add: get_vector_def)

text \<open>
  Below the count the conversion fails, so \<^verbatim>\<open>get_vector\<close> returns no vector at all:
  its result is \<^verbatim>\<open>None\<close> or an exception.
\<close>

lemma get_vector_no_vector: "get_vector out_of_range s vector_id \<noteq> Inr (Some v)"
  by (simp add: get_vector_def vector_to_array_def split: sum.splits)

subsection \<open>Loading\<close>

lemma load_save: "load s (save s0) = Inr (s\<lparr>index := index s0, metadata := metadata s0\<rparr>)"
  by (simp add: load_def save_def)

lemma load_raises_only_unreadable:
  assumes "load s snap = Inl e"
  shows "index_file snap = Unreadable e \<or> metadata_file snap = Unreadable e"
  using assms by (auto simp: load_def Let_def split: stored_file.splits)




section \<open>Properties of the chunking loop\<close>

lemmas chunk_eval =
  chunk_step_def sentence_search_def clamp_pos_def match_here_def is_terminator_def
  is_quote_def isspace_def slice_def slice_from_def clamp_index_def strip_def
  append_chunk_def

text \<open>
  An iteration that leaves \<^verbatim>\<open>start\<close> where it was, whatever the chunks collected, is
  repeated for ever: the loop returns nothing from there.
\<close>

lemma split_loop_fixed_point:
  assumes fp: "\<And>cs. chunk_step cfg text start cs = Continue start cs"
      and lt: "start < int (length text)"
  shows "split_loop cfg text start chunks = None"
proof (rule ccontr)
  assume "split_loop cfg text start chunks \<noteq> None"
  then obtain y where run: "split_loop cfg text start chunks = Some y" by auto
  have "\<not> (cfg = cfg \<and> text = text \<and> start = start)"
  proof (rule split_loop.raw_induct
      [where P = "\<lambda>c t s cs r. \<not> (c = cfg \<and> t = text \<and> s = start)", OF _ run])
    fix f c t s cs r
    assume IH: "\<And>c t s cs r. f c t s cs = Some r \<Longrightarrow> \<not> (c = cfg \<and> t = text \<and> s = start)"
      and body: "(if s < int (length t)
                  then case chunk_step c t s cs of
                         Done cs' \<Rightarrow> Some cs'
                       | Continue s' cs' \<Rightarrow> f c t s' cs'
                  else Some cs) = Some r"
    show "\<not> (c = cfg \<and> t = text \<and> s = start)"
    proof
      assume same: "c = cfg \<and> t = text \<and> s = start"
      with body fp lt have "f cfg text start cs = Some r" by simp
      with IH show False by blast
    qed
  qed
  then show False by simp
qed

lemma example_first_step:
  "chunk_step example_config ''A. B. C.'' 0 [] = Continue 2 [''A.'']"
  by (simp add: chunk_eval example_config_def)

lemma example_stuck_step:
  "chunk_step example_config ''A. B. C.'' 2 cs = Continue 2 cs"
  by (simp add: chunk_eval example_config_def)

text \<open>
  Without a sentence boundary in the window the cut stays at \<^verbatim>\<open>start + chunk_size\<close>,
  and an overlap below the chunk size moves \<^verbatim>\<open>start\<close> forward.
\<close>

lemma chunk_step_progress_without_boundary:
  assumes "chunk_overlap cfg < chunk_size cfg"
      and "sentence_search text (start + chunk_size cfg - 100) (start + chunk_size cfg + 100) = None"
      and "chunk_step cfg text start chunks = Continue start' chunks'"
  shows "start < start'"
  using assms by (auto simp: chunk_step_def Let_def split: if_splits)

text \<open>
  C2.  With an overlap below the chunk size the chunking loop is meant to move
  \<^verbatim>\<open>start\<close> forward in every iteration and so to end; the example is the text
  \<^verbatim>\<open>A. B. C.\<close> with chunk size 4, overlap 1 and minimum chunk size 1.  On that example the
  loop does not end.  The search window for a sentence boundary starts at
  \<^verbatim>\<open>end - 100\<close>, before \<^verbatim>\<open>start\<close>: the first iteration cuts at 3, after \<^verbatim>\<open>A. \<close>, and
  continues from 2; every later iteration finds that same boundary again, cuts at 3,
  collects nothing (the chunk is one space, empty when stripped) and continues from 2.
\<close>

theorem split_into_chunks_example_diverges:
  "chunk_overlap example_config < chunk_size example_config
   \<and> chunk_step example_config ''A. B. C.'' 0 [] = Continue 2 [''A.'']
   \<and> chunk_step example_config ''A. B. C.'' 2 [''A.''] = Continue 2 [''A.'']
   \<and> split_into_chunks example_config ''A. B. C.'' = None"
proof -
  have "split_loop example_config ''A. B. C.'' 2 [''A.''] = None"
    by (rule split_loop_fixed_point) (simp_all add: example_stuck_step)
  then have "split_loop example_config ''A. B. C.'' 0 [] = None"
    by (subst split_loop.simps) (simp add: example_first_step)
  then have div: "split_into_chunks example_config ''A. B. C.'' = None"
    by (simp add: split_into_chunks_def)
  have small: "chunk_overlap example_config < chunk_size example_config"
    by (simp add: example_config_def)
  from small example_first_step example_stuck_step [of "[''A.'']"] div
  show ?thesis by (intro conjI)
qed

section \<open>Splitting and merging\<close>






















section \<open>Document identifiers and metadata\<close>

lemma generate_doc_id_given:
  assumes "map_of m ''id'' = Some v"
  shows "generate_doc_id md5_hexdigest now content (Some m) = py_str v"
  using assms by (cases m) (auto simp: generate_doc_id_def Let_def)

lemma generate_doc_id_generated:
  assumes "\<not> (\<exists>m v. md = Some m \<and> map_of m ''id'' = Some v)"
  shows "generate_doc_id md5_hexdigest now content md
           = ''doc_'' @ strftime now @ ''_'' @ slice_to (md5_hexdigest content) 8"
proof (cases md)
  case None
  then show ?thesis by (simp add: generate_doc_id_def Let_def)
next
  case (Some m)
  with assms have "map_of m ''id'' = None" by (cases "map_of m ''id''") auto
  with Some show ?thesis by (simp add: generate_doc_id_def Let_def)
qed

lemma example_id_first:
  "generate_doc_id sample_md5 example_time ''hello world'' None
     = ''doc_20240102030405_5eb63bbb''"
  by code_simp

lemma example_id_later:
  "generate_doc_id sample_md5 later_time ''hello world'' None
     = ''doc_20240102030406_5eb63bbb''"
  by code_simp

lemma example_run_first:
  "map_option (doc_id \<circ> fst)
     (process_document short_config sample_md5 example_time example_time one_mapping
        ''hello world'' None)
     = Some ''doc_20240102030405_5eb63bbb''"
  by code_simp

lemma example_run_later:
  "map_option (doc_id \<circ> fst)
     (process_document short_config sample_md5 later_time later_time one_mapping
        ''hello world'' None)
     = Some ''doc_20240102030406_5eb63bbb''"
  by code_simp

text \<open>
  The identifier of a processed document is that of \<^verbatim>\<open>_generate_doc_id\<close> for the
  cleaned content and the metadata as the caller passed them.
\<close>

lemma process_document_doc_id:
  assumes "process_document cfg md5_hexdigest now1 now2 h content0 md = Some (doc, h')"
  shows "doc_id doc
           = generate_doc_id md5_hexdigest now1 (clean_text content0) (map_option (cells h) md)"
  using assms by (auto simp: process_document_def Let_def split: option.splits)

text \<open>
  C9.  The document identifier is meant to be a function of content and metadata
  alone, the same in two separate runs.  Without an \<^verbatim>\<open>id\<close> entry in the metadata the
  identifier contains the clock reading (\<^verbatim>\<open># Add timestamp\<close>): the text
  \<^verbatim>\<open>hello world\<close> without metadata gets one identifier at 03:04:05 and another one a
  second later, from \<^verbatim>\<open>_generate_doc_id\<close> and so from \<^verbatim>\<open>process_document\<close>.
\<close>

theorem generate_doc_id_clock_counterexample:
  "generate_doc_id sample_md5 example_time ''hello world'' None
     = ''doc_20240102030405_5eb63bbb''
   \<and> generate_doc_id sample_md5 later_time ''hello world'' None
     = ''doc_20240102030406_5eb63bbb''
   \<and> generate_doc_id sample_md5 example_time ''hello world'' None
     \<noteq> generate_doc_id sample_md5 later_time ''hello world'' None
   \<and> map_option (doc_id \<circ> fst)
        (process_document short_config sample_md5 example_time example_time one_mapping
           ''hello world'' None)
     \<noteq> map_option (doc_id \<circ> fst)
        (process_document short_config sample_md5 later_time later_time one_mapping
           ''hello world'' None)"
proof -
  have ids: "generate_doc_id sample_md5 example_time ''hello world'' None
     \<noteq> generate_doc_id sample_md5 later_time ''hello world'' None"
    unfolding example_id_first example_id_later by simp
  have runs: "map_option (doc_id \<circ> fst)
        (process_document short_config sample_md5 example_time example_time one_mapping
           ''hello world'' None)
     \<noteq> map_option (doc_id \<circ> fst)
        (process_document short_config sample_md5 later_time later_time one_mapping
           ''hello world'' None)"
    unfolding example_run_first example_run_later by simp
  from example_id_first example_id_later ids runs show ?thesis
    by (intro conjI)
qed

text \<open>
  C9, as it holds: the identifier is a function of the content, the metadata and the clock
  read to the second.  With an \<^verbatim>\<open>id\<close> entry in the metadata it is the string of that
  entry (lemma \<open>generate_doc_id_given\<close>); otherwise it is \<^verbatim>\<open>doc_\<close>, the time stamp, an
  underscore and the first eight digits of the digest of the content (lemma
  \<open>generate_doc_id_generated\<close>).  So, for one content and one metadata, two clock
  readings give the same identifier exactly when the metadata have an \<^verbatim>\<open>id\<close> entry or
  the two readings have the same time stamp.
\<close>

theorem generate_doc_id_same_iff:
  "(generate_doc_id md5_hexdigest now1 content md
      = generate_doc_id md5_hexdigest now2 content md)
     = ((\<exists>m v. md = Some m \<and> map_of m ''id'' = Some v) \<or> strftime now1 = strftime now2)"
proof (cases "\<exists>m v. md = Some m \<and> map_of m ''id'' = Some v")
  case True
  then obtain m v where "md = Some m" "map_of m ''id'' = Some v" by auto
  then have "generate_doc_id md5_hexdigest now1 content md
               = generate_doc_id md5_hexdigest now2 content md"
    by (simp add: generate_doc_id_given)
  with True show ?thesis by simp
next
  case False
  have "(generate_doc_id md5_hexdigest now1 content md
           = generate_doc_id md5_hexdigest now2 content md)
        = (strftime now1 = strftime now2)"
    unfolding generate_doc_id_generated [OF False] by simp
  with False show ?thesis by blast
qed

lemma example_same_stamp: "strftime example_time = strftime same_second"
  by code_simp

theorem generate_doc_id_same_iff_witness:
  "generate_doc_id sample_md5 example_time ''hello world'' None
     = generate_doc_id sample_md5 same_second ''hello world'' None"
  using generate_doc_id_same_iff [of sample_md5 example_time "''hello world''" None same_second]
    example_same_stamp
  by blast

subsection \<open>The caller's metadata\<close>


text \<open>\<^verbatim>\<open>process_document\<close> returns exactly when the chunking of the cleaned text does.\<close>

lemma process_document_returns:
  "(\<exists>r. process_document cfg md5_hexdigest now1 now2 h content0 md = Some r)
     = (\<exists>cs. split_into_chunks cfg (clean_text content0) = Some cs)"
  by (auto simp: process_document_def Let_def split: option.splits)








section \<open>Properties of the retriever\<close>






text \<open>
  C6.  \<^verbatim>\<open>retrieve\<close> is meant to return at most \<^verbatim>\<open>max_documents\<close> results, each with a
  similarity of at least the threshold.  It filters by the threshold but never
  truncates: the number is only passed on to the store as \<^verbatim>\<open>n_results\<close>, and
  \<^verbatim>\<open>max_documents or self.max_documents\<close> replaces 0 as well as \<^verbatim>\<open>None\<close> by the
  configured number.  With 5 configured and a store that returns its first
  \<^verbatim>\<open>n_results\<close> hits, \<^verbatim>\<open>retrieve\<close> with \<^verbatim>\<open>max_documents=0\<close> returns five results.
\<close>

theorem retrieve_zero_counterexample:
  "retrieve length_embedding first_hits five_at_most ''q'' None (Some 0)
     = Inr [hit ''a'' 0.95, hit ''b'' 0.9, hit ''c'' 0.85, hit ''d'' 0.8, hit ''e'' 0.75]
   \<and> \<not> int (length [hit ''a'' 0.95, hit ''b'' 0.9, hit ''c'' 0.85, hit ''d'' 0.8,
                      hit ''e'' 0.75]) \<le> 0"
  by (simp add: retrieve_def length_embedding_def first_hits_def five_at_most_def or_default_def
        stored_hits_def slice_to_def clamp_index_def get_similarity_def hit_def)

text \<open>
  C6, as it holds: a normal return of \<^verbatim>\<open>retrieve\<close> is the list that the store's search
  returned for \<^verbatim>\<open>n_results = max_documents\<close> (the configured number when the argument
  is omitted or 0), filtered by the threshold, an absent similarity counting as 0.  Every
  element has a similarity of at least the threshold, and the result is no longer than
  the store's list: it has at most \<^verbatim>\<open>n_results\<close> entries whenever the store returned at
  most \<^verbatim>\<open>n_results\<close>.
\<close>

theorem retrieve_filters_store_results:
  assumes "retrieve generate_embedding store_search r query filters max_docs = Inr out"
  shows "\<exists>qe results.
           generate_embedding query = Inr qe
           \<and> store_search qe (or_default max_docs (max_documents r)) filters = Inr results
           \<and> out = filter (\<lambda>res. similarity_threshold r \<le> get_similarity res) results
           \<and> (\<forall>res \<in> set out. similarity_threshold r \<le> get_similarity res)
           \<and> length out \<le> length results
           \<and> (int (length results) \<le> or_default max_docs (max_documents r)
                \<longrightarrow> int (length out) \<le> or_default max_docs (max_documents r))"
proof -
  from assms obtain qe results where
    qe: "generate_embedding query = Inr qe" and
    rs: "store_search qe (or_default max_docs (max_documents r)) filters = Inr results" and
    out: "out = filter (\<lambda>res. similarity_threshold r \<le> get_similarity res) results"
    by (auto simp: retrieve_def split: sum.splits)
  have len: "length out \<le> length results"
    unfolding out by simp
  have thr: "\<forall>res \<in> set out. similarity_threshold r \<le> get_similarity res"
    unfolding out by simp
  from len have bound: "int (length results) \<le> or_default max_docs (max_documents r)
                \<longrightarrow> int (length out) \<le> or_default max_docs (max_documents r)"
    by simp
  from qe rs out thr len bound show ?thesis by blast
qed

lemma retrieve_all_six:
  "retrieve length_embedding first_hits five_at_most ''q'' None (Some 6)
     = Inr [hit ''a'' 0.95, hit ''b'' 0.9, hit ''c'' 0.85, hit ''d'' 0.8, hit ''e'' 0.75]"
  by (simp add: retrieve_def length_embedding_def first_hits_def five_at_most_def or_default_def
        stored_hits_def slice_to_def clamp_index_def get_similarity_def hit_def)

theorem retrieve_filters_store_results_witness:
  "retrieve length_embedding first_hits five_at_most ''q'' None (Some 6)
     = Inr [hit ''a'' 0.95, hit ''b'' 0.9, hit ''c'' 0.85, hit ''d'' 0.8, hit ''e'' 0.75]
   \<and> similarity_threshold five_at_most \<le> get_similarity (hit ''e'' 0.75)
   \<and> first_hits 1 (or_default (Some 6) (max_documents five_at_most)) None = Inr stored_hits"
proof -
  from retrieve_filters_store_results [OF retrieve_all_six]
  have "\<forall>res \<in> set [hit ''a'' 0.95, hit ''b'' 0.9, hit ''c'' 0.85, hit ''d'' 0.8,
                      hit ''e'' 0.75].
          similarity_threshold five_at_most \<le> get_similarity res"
    by blast
  then have e: "similarity_threshold five_at_most \<le> get_similarity (hit ''e'' 0.75)"
    by simp
  have st: "first_hits 1 (or_default (Some 6) (max_documents five_at_most)) None
              = Inr stored_hits"
    by (simp add: first_hits_def or_default_def slice_to_def clamp_index_def stored_hits_def)
  from retrieve_all_six e st show ?thesis by (intro conjI)
qed

end
